theory Spec2Isabelle
  imports Complex_Main "HOL-Library.Multiset"
begin

section \<open>Focus Flow: tasks, sessions, settings and the Pomodoro timer\<close>

text \<open>
  A shallow embedding of the state logic of the application: the three data hooks of
  \<^verbatim>\<open>src/hooks/useFirestore.ts\<close> (\<^verbatim>\<open>useTasks\<close>, \<^verbatim>\<open>usePomodoroSessions\<close>,
  \<^verbatim>\<open>useUserSettings\<close>), the drag handler of \<^verbatim>\<open>TaskManager.tsx\<close>, the timer of
  \<^verbatim>\<open>PomodoroTimer.tsx\<close> and the chart effect of \<^verbatim>\<open>ProgressTracker.tsx\<close>.

  Conventions. JavaScript numbers that hold counts, orders, durations and instants are
  integers here (\<open>int\<close>); an instant is the number of milliseconds since the epoch, as
  \<^verbatim>\<open>Date.getTime()\<close> returns it. React state is passed explicitly: a handler takes the
  state of the render it closes over and returns the state after its setter calls; the
  effects that React runs after the next render are separate functions, applied by the
  functions named \<open>\<dots>_ev\<close>. The current time and the identifier that the document
  store generates for a new document are inputs of the functions that read them.
\<close>

subsection \<open>The document store\<close>

type_synonym timestamp = int

text \<open>
  A collection maps document identifiers to documents. \<^verbatim>\<open>updateDoc\<close> rejects when the
  document does not exist (the store's contract); \<^verbatim>\<open>addDoc\<close> stores the document
  under the generated identifier; \<^verbatim>\<open>deleteDoc\<close> of an absent document succeeds.
  Failures of the network are outside this model, so the rejection of \<^verbatim>\<open>updateDoc\<close>
  is the only one that reaches a \<^verbatim>\<open>catch\<close> block here.
\<close>

datatype FirestoreError = NotFound

definition getDoc :: "(string \<rightharpoonup> 'd) \<Rightarrow> string \<Rightarrow> 'd option" where
  "getDoc col k = col k"

definition addDoc :: "(string \<rightharpoonup> 'd) \<Rightarrow> string \<Rightarrow> 'd \<Rightarrow> (string \<rightharpoonup> 'd)" where
  "addDoc col newId d = col(newId \<mapsto> d)"

definition updateDoc ::
  "(string \<rightharpoonup> 'd) \<Rightarrow> string \<Rightarrow> ('d \<Rightarrow> 'd) \<Rightarrow> FirestoreError + (string \<rightharpoonup> 'd)" where
  "updateDoc col k upd =
     (case col k of None \<Rightarrow> Inl NotFound | Some d \<Rightarrow> Inr (col(k \<mapsto> upd d)))"

definition deleteDoc :: "(string \<rightharpoonup> 'd) \<Rightarrow> string \<Rightarrow> (string \<rightharpoonup> 'd)" where
  "deleteDoc col k = col(k := None)"

subsection \<open>Data model\<close>

text \<open>
  \<^verbatim>\<open>interface Task\<close>. A stored document has no \<^verbatim>\<open>id\<close> field: the hook adds the
  document's identifier when it reads or creates one, so the in-memory task extends the
  stored document.
\<close>

record TaskDoc =
  title :: string
  description :: "string option"
  completed :: bool
  createdAt :: timestamp
  updatedAt :: timestamp
  pomodorosCompleted :: int
  userId :: string
  order :: int

record Task = TaskDoc +
  id_t :: string

text \<open>
  \<^verbatim>\<open>Partial<Task>\<close>, as the callers build it: the fields of an object literal in
  order. Spreading it over a task assigns each field in turn.
\<close>

datatype TaskField =
    Title string
  | Description string
  | Completed bool
  | PomodorosCompleted int
  | Order int
  | UpdatedAt timestamp

fun assign :: "TaskField \<Rightarrow> 'a TaskDoc_scheme \<Rightarrow> 'a TaskDoc_scheme" where
  "assign (Title v) t = t\<lparr>title := v\<rparr>"
| "assign (Description v) t = t\<lparr>description := Some v\<rparr>"
| "assign (Completed v) t = t\<lparr>completed := v\<rparr>"
| "assign (PomodorosCompleted v) t = t\<lparr>pomodorosCompleted := v\<rparr>"
| "assign (Order v) t = t\<lparr>order := v\<rparr>"
| "assign (UpdatedAt v) t = t\<lparr>updatedAt := v\<rparr>"

definition spread :: "TaskField list \<Rightarrow> 'a TaskDoc_scheme \<Rightarrow> 'a TaskDoc_scheme" where
  "spread fs t = fold assign fs t"

text \<open>\<^verbatim>\<open>interface PomodoroSession\<close>, in the three stages the hook builds it.\<close>

datatype SessionType = work_session | break_session

record SessionInput =
  taskId :: string
  startTime :: timestamp
  endTime :: timestamp
  duration :: int
  type :: SessionType

record SessionDoc = SessionInput +
  userId_s :: string

record PomodoroSession = SessionDoc +
  id_s :: string

text \<open>
  The settings state of \<^verbatim>\<open>useUserSettings\<close>, and a stored settings document:
  \<^verbatim>\<open>updateDoc\<close> writes the four fields, the \<^verbatim>\<open>addDoc\<close> of the fallback adds
  \<^verbatim>\<open>userId\<close>.
\<close>

record Settings =
  workDuration :: int
  shortBreakDuration :: int
  longBreakDuration :: int
  longBreakInterval :: int

record SettingsDoc = Settings +
  userId_u :: "string option"

record Store =
  tasks_c :: "string \<rightharpoonup> TaskDoc"
  pomodoroSessions_c :: "string \<rightharpoonup> SessionDoc"
  userSettings_c :: "string \<rightharpoonup> SettingsDoc"

subsection \<open>useTasks\<close>

record TasksHook =
  tasks :: "Task list"
  loading_t :: bool
  error_t :: "string option"

text \<open>\<^verbatim>\<open>Math.max(...xs)\<close>; \<open>None\<close> stands for the \<^verbatim>\<open>-Infinity\<close> of no argument.\<close>

fun Math_max :: "int list \<Rightarrow> int option" where
  "Math_max [] = None"
| "Math_max (x # xs) = (case Math_max xs of None \<Rightarrow> Some x | Some m \<Rightarrow> Some (max x m))"

text \<open>
  The argument of \<^verbatim>\<open>addTask\<close>:
  \<^verbatim>\<open>Omit<Task, 'id' | 'createdAt' | 'updatedAt' | 'userId' | 'order'>\<close>.
\<close>

record TaskInput =
  title_i :: string
  description_i :: "string option"
  completed_i :: bool
  pomodorosCompleted_i :: int

definition highestOrder :: "Task list \<Rightarrow> int" where
  "highestOrder ts =
     (if length ts > 0
      then (case Math_max (map order ts) of Some m \<Rightarrow> m | None \<Rightarrow> - 1)
      else - 1)"

definition addTask ::
  "string option \<Rightarrow> timestamp \<Rightarrow> string \<Rightarrow> TaskInput \<Rightarrow> TasksHook \<times> Store
     \<Rightarrow> Task option \<times> TasksHook \<times> Store" where
  "addTask currentUser now newId taskData hs =
     (case hs of (h, st) \<Rightarrow>
       (case currentUser of
          None \<Rightarrow> (None, h, st)
        | Some uid \<Rightarrow>
            let newTask = \<lparr>title = title_i taskData, description = description_i taskData,
                           completed = False, createdAt = now, updatedAt = now,
                           pomodorosCompleted = 0, userId = uid,
                           order = highestOrder (tasks h) + 1\<rparr>;
                st' = st\<lparr>tasks_c := addDoc (tasks_c st) newId newTask\<rparr>;
                taskWithId = TaskDoc.extend newTask (Task.fields newId)
            in (Some taskWithId, h\<lparr>tasks := tasks h @ [taskWithId]\<rparr>, st')))"

definition updateTask ::
  "string option \<Rightarrow> timestamp \<Rightarrow> string \<Rightarrow> TaskField list \<Rightarrow> TasksHook \<times> Store
     \<Rightarrow> bool \<times> TasksHook \<times> Store" where
  "updateTask currentUser now ident taskData hs =
     (case hs of (h, st) \<Rightarrow>
       (case currentUser of
          None \<Rightarrow> (False, h, st)
        | Some uid \<Rightarrow>
            let updatedTask = taskData @ [UpdatedAt now]
            in (case updateDoc (tasks_c st) ident (spread updatedTask) of
                  Inr col \<Rightarrow>
                    (True,
                     h\<lparr>tasks := map (\<lambda>task. if id_t task = ident then spread updatedTask task
                                              else task) (tasks h)\<rparr>,
                     st\<lparr>tasks_c := col\<rparr>)
                | Inl err \<Rightarrow> (False, h\<lparr>error_t := Some ''Failed to update task''\<rparr>, st))))"

definition deleteTask ::
  "string option \<Rightarrow> string \<Rightarrow> TasksHook \<times> Store \<Rightarrow> bool \<times> TasksHook \<times> Store" where
  "deleteTask currentUser ident hs =
     (case hs of (h, st) \<Rightarrow>
       (case currentUser of
          None \<Rightarrow> (False, h, st)
        | Some uid \<Rightarrow>
            (True,
             h\<lparr>tasks := filter (\<lambda>task. id_t task \<noteq> ident) (tasks h)\<rparr>,
             st\<lparr>tasks_c := deleteDoc (tasks_c st) ident\<rparr>)))"

text \<open>\<^verbatim>\<open>xs.map((task, index) => ({...task, order: index}))\<close>\<close>

fun reindex_from :: "int \<Rightarrow> Task list \<Rightarrow> Task list" where
  "reindex_from i [] = []"
| "reindex_from i (t # ts) = t\<lparr>order := i\<rparr> # reindex_from (i + 1) ts"

definition reindex :: "Task list \<Rightarrow> Task list" where
  "reindex ts = reindex_from 0 ts"

text \<open>
  The updates of \<^verbatim>\<open>reorderTasks\<close> are all issued before \<^verbatim>\<open>Promise.all\<close> waits
  for them: each one that finds its document is written, and one that does not makes
  the whole call fail.
\<close>

fun updateOrders ::
  "timestamp \<Rightarrow> Task list \<Rightarrow> (string \<rightharpoonup> TaskDoc) \<Rightarrow> bool \<times> (string \<rightharpoonup> TaskDoc)" where
  "updateOrders now [] col = (True, col)"
| "updateOrders now (t # ts) col =
     (case updateDoc col (id_t t) (spread [Order (order t), UpdatedAt now]) of
        Inr col' \<Rightarrow> updateOrders now ts col'
      | Inl err \<Rightarrow> (False, snd (updateOrders now ts col)))"

definition reorderTasks ::
  "string option \<Rightarrow> timestamp \<Rightarrow> Task list \<Rightarrow> TasksHook \<times> Store
     \<Rightarrow> bool \<times> TasksHook \<times> Store" where
  "reorderTasks currentUser now reorderedTasks hs =
     (case hs of (h, st) \<Rightarrow>
       (case currentUser of
          None \<Rightarrow> (False, h, st)
        | Some uid \<Rightarrow>
            let updatedTasks = reindex reorderedTasks;
                (ok, col) = updateOrders now updatedTasks (tasks_c st)
            in if ok then (True, h\<lparr>tasks := updatedTasks\<rparr>, st\<lparr>tasks_c := col\<rparr>)
               else (False, h\<lparr>error_t := Some ''Failed to reorder tasks''\<rparr>,
                     st\<lparr>tasks_c := col\<rparr>)))"

subsection \<open>usePomodoroSessions\<close>

record SessionsHook =
  sessions :: "PomodoroSession list"
  loading_s :: bool
  error_s :: "string option"

text \<open>\<^verbatim>\<open>x || 0\<close> on a number: \<open>0\<close> is the only falsy integer.\<close>

definition or_zero :: "int \<Rightarrow> int" where
  "or_zero x = (if x = 0 then 0 else x)"

text \<open>
  \<^verbatim>\<open>addSession\<close>: the session is stored and put in front of the in-memory list; for
  a work session the task's document is read from the store and, when it exists, its
  counter is written back plus one. A rejected write ends in the \<^verbatim>\<open>catch\<close> block,
  after the session has been stored.
\<close>

definition addSession ::
  "string option \<Rightarrow> timestamp \<Rightarrow> string \<Rightarrow> SessionInput \<Rightarrow> SessionsHook \<times> Store
     \<Rightarrow> PomodoroSession option \<times> SessionsHook \<times> Store" where
  "addSession currentUser now newId sessionData hs =
     (case hs of (h, st) \<Rightarrow>
       (case currentUser of
          None \<Rightarrow> (None, h, st)
        | Some uid \<Rightarrow>
            let newSession = SessionInput.extend sessionData (SessionDoc.fields uid);
                st1 = st\<lparr>pomodoroSessions_c := addDoc (pomodoroSessions_c st) newId newSession\<rparr>;
                sessionWithId = SessionDoc.extend newSession (PomodoroSession.fields newId);
                h1 = h\<lparr>sessions := sessionWithId # sessions h\<rparr>
            in if type sessionData = work_session
               then (case getDoc (tasks_c st1) (taskId sessionData) of
                       Some taskData \<Rightarrow>
                         (case updateDoc (tasks_c st1) (taskId sessionData)
                                 (spread [PomodorosCompleted
                                            (or_zero (pomodorosCompleted taskData) + 1),
                                          UpdatedAt now]) of
                            Inr col \<Rightarrow> (Some sessionWithId, h1, st1\<lparr>tasks_c := col\<rparr>)
                          | Inl err \<Rightarrow>
                              (None, h1\<lparr>error_s := Some ''Failed to add pomodoro session''\<rparr>,
                               st1))
                     | None \<Rightarrow> (Some sessionWithId, h1, st1))
               else (Some sessionWithId, h1, st1)))"

subsection \<open>useUserSettings\<close>

record SettingsHook =
  settings :: Settings
  loading_u :: bool
  error_u :: "string option"

definition defaultSettings :: Settings where
  "defaultSettings =
     \<lparr>workDuration = 25, shortBreakDuration = 5, longBreakDuration = 15,
      longBreakInterval = 4\<rparr>"

definition initialSettingsHook :: SettingsHook where
  "initialSettingsHook = \<lparr>settings = defaultSettings, loading_u = True, error_u = None\<rparr>"

text \<open>\<^verbatim>\<open>updateDoc(settingsRef, newSettings)\<close> overwrites the four fields of the document.\<close>

definition writeSettings :: "Settings \<Rightarrow> SettingsDoc \<Rightarrow> SettingsDoc" where
  "writeSettings new d =
     d\<lparr>workDuration := workDuration new, shortBreakDuration := shortBreakDuration new,
       longBreakDuration := longBreakDuration new,
       longBreakInterval := longBreakInterval new\<rparr>"

text \<open>
  \<^verbatim>\<open>updateSettings\<close>: when the update is rejected, the \<^verbatim>\<open>catch\<close> block creates a
  document with \<^verbatim>\<open>addDoc(collection(db, 'userSettings'), \<dots>)\<close>, that is under the
  identifier \<open>newId\<close> the store generates; the reference \<^verbatim>\<open>settingsRef\<close> built from
  the user's uid in that block is not used. The inner \<^verbatim>\<open>catch\<close> is not reached in
  this model, where \<^verbatim>\<open>addDoc\<close> does not fail.
\<close>

definition updateSettings ::
  "string option \<Rightarrow> string \<Rightarrow> Settings \<Rightarrow> SettingsHook \<times> Store
     \<Rightarrow> bool \<times> SettingsHook \<times> Store" where
  "updateSettings currentUser newId newSettings hs =
     (case hs of (h, st) \<Rightarrow>
       (case currentUser of
          None \<Rightarrow> (False, h, st)
        | Some uid \<Rightarrow>
            (case updateDoc (userSettings_c st) uid (writeSettings newSettings) of
               Inr col \<Rightarrow> (True, h\<lparr>settings := newSettings\<rparr>, st\<lparr>userSettings_c := col\<rparr>)
             | Inl err \<Rightarrow>
                 (True, h\<lparr>settings := newSettings\<rparr>,
                  st\<lparr>userSettings_c :=
                       addDoc (userSettings_c st) newId
                         (Settings.extend newSettings (SettingsDoc.fields (Some uid)))\<rparr>))))"

definition fetchSettings ::
  "string option \<Rightarrow> string \<Rightarrow> SettingsHook \<times> Store \<Rightarrow> SettingsHook \<times> Store" where
  "fetchSettings currentUser newId hs =
     (case hs of (h, st) \<Rightarrow>
       (case currentUser of
          None \<Rightarrow> (h\<lparr>loading_u := False\<rparr>, st)
        | Some uid \<Rightarrow>
            (case getDoc (userSettings_c st) uid of
               Some d \<Rightarrow> (h\<lparr>settings := Settings.truncate d, loading_u := False\<rparr>, st)
             | None \<Rightarrow>
                 (case updateSettings currentUser newId (settings h)
                         (h\<lparr>loading_u := True\<rparr>, st) of
                    (r, h', st') \<Rightarrow> (h'\<lparr>loading_u := False\<rparr>, st')))))"

subsection \<open>TaskManager: the drag handler\<close>

datatype Filter = Filter_all | Filter_active | Filter_completed

definition getFilteredTasks :: "Filter \<Rightarrow> Task list \<Rightarrow> Task list" where
  "getFilteredTasks f ts =
     (case f of
        Filter_active \<Rightarrow> filter (\<lambda>task. \<not> completed task) ts
      | Filter_completed \<Rightarrow> filter (\<lambda>task. completed task) ts
      | Filter_all \<Rightarrow> ts)"

text \<open>
  \<^verbatim>\<open>xs.splice(i, 1)\<close> for \<open>i\<close> within the list, and \<^verbatim>\<open>xs.splice(i, 0, x)\<close>, which
  appends when \<open>i\<close> is beyond the end.
\<close>

definition splice_delete :: "nat \<Rightarrow> 'a list \<Rightarrow> 'a list" where
  "splice_delete i xs = take i xs @ drop (Suc i) xs"

definition splice_insert :: "nat \<Rightarrow> 'a \<Rightarrow> 'a list \<Rightarrow> 'a list" where
  "splice_insert i x xs = take i xs @ x # drop i xs"

record DropResult =
  source_index :: nat
  destination_index :: "nat option"

text \<open>
  What the handler hands to \<^verbatim>\<open>reorderTasks\<close>. The drag-and-drop library reports as
  source the index of a row of the filtered list; for any other index the model stops
  with \<open>SourceOutOfRange\<close>. \<^verbatim>\<open>Array.prototype.sort\<close> is stable, as \<open>sort_key\<close> is.
\<close>

datatype DragOutcome = NoReorder | SourceOutOfRange | Reorder "Task list"

definition handleDragEnd :: "Filter \<Rightarrow> Task list \<Rightarrow> DropResult \<Rightarrow> DragOutcome" where
  "handleDragEnd flt ts result =
     (case destination_index result of
        None \<Rightarrow> NoReorder
      | Some endIndex \<Rightarrow>
          let startIndex = source_index result in
          if startIndex = endIndex then NoReorder
          else
            let filteredTasks = getFilteredTasks flt ts in
            if startIndex \<ge> length filteredTasks then SourceOutOfRange
            else
              let removed = filteredTasks ! startIndex;
                  reordered = splice_insert endIndex removed
                                (splice_delete startIndex filteredTasks);
                  nonFilteredTasks =
                    filter (\<lambda>task. \<not> list_ex (\<lambda>filteredTask. id_t filteredTask = id_t task)
                                         filteredTasks) ts;
                  allTasks = sort_key order (reordered @ nonFilteredTasks);
                  updatedTasks = reindex allTasks
              in Reorder updatedTasks)"

text \<open>The handler with the hook call it ends in.\<close>

definition handleDragEnd_ev ::
  "string option \<Rightarrow> timestamp \<Rightarrow> Filter \<Rightarrow> DropResult \<Rightarrow> TasksHook \<times> Store
     \<Rightarrow> TasksHook \<times> Store" where
  "handleDragEnd_ev currentUser now flt result hs =
     (case handleDragEnd flt (tasks (fst hs)) result of
        Reorder updatedTasks \<Rightarrow> snd (reorderTasks currentUser now updatedTasks hs)
      | _ \<Rightarrow> hs)"

subsection \<open>PomodoroTimer\<close>

datatype TimerMode = work | shortBreak | longBreak

text \<open>
  The state of the component: its \<^verbatim>\<open>useState\<close> cells and \<^verbatim>\<open>startTimeRef\<close>. The
  interval of \<^verbatim>\<open>timerIdRef\<close> is not a field: the effect on \<^verbatim>\<open>isActive\<close> keeps it
  running exactly while \<open>isActive\<close> holds.
\<close>

record Timer =
  timeLeft :: int
  isActive :: bool
  mode :: TimerMode
  selectedTaskId :: "string option"
  completedPomodoros :: int
  startTimeRef :: "timestamp option"

definition modeDuration :: "Settings \<Rightarrow> TimerMode \<Rightarrow> int" where
  "modeDuration cfg m =
     (case m of
        work \<Rightarrow> workDuration cfg * 60
      | shortBreak \<Rightarrow> shortBreakDuration cfg * 60
      | longBreak \<Rightarrow> longBreakDuration cfg * 60)"

definition initialTimer :: "Settings \<Rightarrow> Timer" where
  "initialTimer cfg =
     \<lparr>timeLeft = workDuration cfg * 60, isActive = False, mode = work,
      selectedTaskId = None, completedPomodoros = 0, startTimeRef = None\<rparr>"

text \<open>\<^verbatim>\<open>!selectedTaskId\<close>: \<^verbatim>\<open>null\<close> and the empty string are falsy.\<close>

definition no_task :: "string option \<Rightarrow> bool" where
  "no_task sel = (case sel of None \<Rightarrow> True | Some s \<Rightarrow> s = [])"

text \<open>
  \<^verbatim>\<open>a % b\<close> on integers: the sign of the dividend, and \<^verbatim>\<open>NaN\<close> (\<open>None\<close>) for a zero
  divisor, which no \<^verbatim>\<open>===\<close> equals.
\<close>

definition js_rem :: "int \<Rightarrow> int \<Rightarrow> int option" where
  "js_rem a b = (if b = 0 then None else Some (sgn a * (\<bar>a\<bar> mod \<bar>b\<bar>)))"

text \<open>
  The two effects. The first has the dependencies \<^verbatim>\<open>[mode, settings]\<close> and sets the
  countdown; the second has \<^verbatim>\<open>[isActive]\<close> and records the start of a countdown when
  none is recorded. \<open>runEffects\<close> runs those whose dependency differs between the
  previous render and the next; the settings are the same in both.
\<close>

definition modeEffect :: "Settings \<Rightarrow> Timer \<Rightarrow> Timer" where
  "modeEffect cfg t = t\<lparr>timeLeft := modeDuration cfg (mode t)\<rparr>"

definition activeEffect :: "timestamp \<Rightarrow> Timer \<Rightarrow> Timer" where
  "activeEffect now t =
     (if isActive t
      then (if startTimeRef t = None then t\<lparr>startTimeRef := Some now\<rparr> else t)
      else t)"

definition runEffects :: "Settings \<Rightarrow> timestamp \<Rightarrow> Timer \<Rightarrow> Timer \<Rightarrow> Timer" where
  "runEffects cfg now prev next =
     (let t1 = (if mode next \<noteq> mode prev then modeEffect cfg next else next)
      in if isActive t1 \<noteq> isActive prev then activeEffect now t1 else t1)"

text \<open>\<^verbatim>\<open>toggleTimer\<close>, with the text of the \<^verbatim>\<open>alert\<close> it raises, if any.\<close>

definition toggleTimer :: "Timer \<Rightarrow> Timer \<times> string option" where
  "toggleTimer t =
     (if \<not> isActive t \<and> mode t = work \<and> no_task (selectedTaskId t)
      then (t, Some ''Please select a task before starting a work session'')
      else (t\<lparr>isActive := \<not> isActive t\<rparr>, None))"

definition toggleTimer_ev :: "Settings \<Rightarrow> timestamp \<Rightarrow> Timer \<Rightarrow> Timer \<times> string option" where
  "toggleTimer_ev cfg now t =
     (case toggleTimer t of (t', msg) \<Rightarrow> (runEffects cfg now t t', msg))"

definition resetTimer :: "Settings \<Rightarrow> Timer \<Rightarrow> Timer" where
  "resetTimer cfg t =
     t\<lparr>isActive := False, timeLeft := modeDuration cfg (mode t), startTimeRef := None\<rparr>"

text \<open>\<^verbatim>\<open>switchMode\<close>; \<open>confirmed\<close> is the answer to \<^verbatim>\<open>window.confirm\<close>.\<close>

definition switchMode :: "bool \<Rightarrow> TimerMode \<Rightarrow> Timer \<Rightarrow> Timer" where
  "switchMode confirmed newMode t =
     (if isActive t
      then (if confirmed
            then t\<lparr>isActive := False, mode := newMode, startTimeRef := None\<rparr>
            else t)
      else t\<lparr>mode := newMode\<rparr>)"

definition switchMode_ev ::
  "Settings \<Rightarrow> timestamp \<Rightarrow> bool \<Rightarrow> TimerMode \<Rightarrow> Timer \<Rightarrow> Timer" where
  "switchMode_ev cfg now confirmed newMode t =
     runEffects cfg now t (switchMode confirmed newMode t)"

text \<open>The timer together with the session hook it writes through and the store.\<close>

record World =
  timer :: Timer
  sessionsHook :: SessionsHook
  store :: Store

text \<open>
  The break that follows a work countdown:
  \<^verbatim>\<open>completedPomodoros % settings.longBreakInterval === settings.longBreakInterval - 1\<close>.
\<close>

definition nextAfterWork :: "Settings \<Rightarrow> int \<Rightarrow> TimerMode" where
  "nextAfterWork cfg c =
     (if js_rem c (longBreakInterval cfg) = Some (longBreakInterval cfg - 1)
      then longBreak else shortBreak)"

text \<open>
  \<^verbatim>\<open>handleTimerComplete\<close>. \<open>now\<close> is the instant of \<^verbatim>\<open>new Date()\<close>. The next mode
  is decided from \<open>completedPomodoros\<close> as the handler's closure holds it, that is
  before the increment the handler has just requested. \<^verbatim>\<open>Math.floor(ms / 1000)\<close> is
  the integer quotient \<open>div\<close>, which rounds down as the floor does (the quotient of
  the floating-point division is exact enough for the instants a clock returns).
\<close>

definition handleTimerComplete ::
  "string option \<Rightarrow> Settings \<Rightarrow> timestamp \<Rightarrow> string \<Rightarrow> World \<Rightarrow> World" where
  "handleTimerComplete currentUser cfg now newId w =
     (let t = timer w;
          t1 = t\<lparr>isActive := False\<rparr>;
          w1 = w\<lparr>timer := t1\<rparr>;
          w2 = (case (selectedTaskId t, startTimeRef t) of
                  (Some sel, Some start) \<Rightarrow>
                    if mode t = work \<and> \<not> no_task (selectedTaskId t)
                    then
                      let endTime = now;
                          durationInSeconds = (endTime - start) div 1000;
                          (r, h', st') =
                             addSession currentUser now newId
                               \<lparr>taskId = sel, startTime = start, endTime = endTime,
                                duration = durationInSeconds, type = work_session\<rparr>
                               (sessionsHook w1, store w1)
                      in w1\<lparr>timer := t1\<lparr>completedPomodoros := completedPomodoros t1 + 1\<rparr>,
                            sessionsHook := h', store := st'\<rparr>
                    else w1
                | _ \<Rightarrow> w1);
          t3 = (timer w2)\<lparr>startTimeRef := None\<rparr>;
          nextMode = (if mode t = work then nextAfterWork cfg (completedPomodoros t)
                      else work)
      in w2\<lparr>timer := t3\<lparr>mode := nextMode\<rparr>\<rparr>)"

text \<open>
  One tick of the interval: the updater of \<^verbatim>\<open>setTimeLeft\<close>, the completion handler it
  calls at the end of the countdown, and the effects of the render that follows.
\<close>

definition tick :: "string option \<Rightarrow> Settings \<Rightarrow> timestamp \<Rightarrow> string \<Rightarrow> World \<Rightarrow> World" where
  "tick currentUser cfg now newId w =
     (let prevTime = timeLeft (timer w) in
      if prevTime \<le> 1
      then handleTimerComplete currentUser cfg now newId
             (w\<lparr>timer := (timer w)\<lparr>timeLeft := 0\<rparr>\<rparr>)
      else w\<lparr>timer := (timer w)\<lparr>timeLeft := prevTime - 1\<rparr>\<rparr>)"

definition tick_ev :: "string option \<Rightarrow> Settings \<Rightarrow> timestamp \<Rightarrow> string \<Rightarrow> World \<Rightarrow> World" where
  "tick_ev currentUser cfg now newId w =
     (let w' = tick currentUser cfg now newId w
      in w'\<lparr>timer := runEffects cfg now (timer w) (timer w')\<rparr>)"

text \<open>
  A countdown left to run: one tick each second while the timer is active. \<open>gen\<close> is
  the store's generator of document identifiers.
\<close>

function countdown ::
  "string option \<Rightarrow> Settings \<Rightarrow> (Store \<Rightarrow> string) \<Rightarrow> timestamp \<Rightarrow> World \<Rightarrow> World" where
  "countdown currentUser cfg gen now w =
     (if isActive (timer w)
      then countdown currentUser cfg gen (now + 1000)
             (tick_ev currentUser cfg (now + 1000) (gen (store w)) w)
      else w)"
  by pat_completeness auto

termination countdown
proof (relation "measure (\<lambda>(u, cfg, gen, now, w::World).
          if isActive (timer w) then nat (timeLeft (timer w)) + 1 else 0)")
  show "wf (measure (\<lambda>(u, cfg, gen, now, w::World).
          if isActive (timer w) then nat (timeLeft (timer w)) + 1 else 0))"
    by simp
next
  fix currentUser cfg gen now and w :: World
  assume active: "isActive (timer w)"
  show "((currentUser, cfg, gen, now + 1000,
          tick_ev currentUser cfg (now + 1000) (gen (store w)) w),
         (currentUser, cfg, gen, now, w))
        \<in> measure (\<lambda>(u, cfg, gen, now, w::World).
             if isActive (timer w) then nat (timeLeft (timer w)) + 1 else 0)"
  proof (cases "timeLeft (timer w) \<le> 1")
    case True
    then have "\<not> isActive (timer (tick_ev currentUser cfg (now + 1000) (gen (store w)) w))"
      using active
      by (simp add: tick_ev_def tick_def Let_def runEffects_def modeEffect_def
            activeEffect_def handleTimerComplete_def split: option.splits prod.splits)
    then show ?thesis using active by simp
  next
    case False
    then show ?thesis using active
      by (simp add: tick_ev_def tick_def Let_def runEffects_def modeEffect_def
            activeEffect_def)
  qed
qed

declare countdown.simps [simp del]

text \<open>
  A full countdown from a paused timer: the start button, then the ticks until the
  timer stops. When the start is refused the timer is not active and no tick runs.
\<close>

definition runCountdown ::
  "string option \<Rightarrow> Settings \<Rightarrow> (Store \<Rightarrow> string) \<Rightarrow> timestamp \<Rightarrow> World \<Rightarrow> World" where
  "runCountdown currentUser cfg gen now w =
     countdown currentUser cfg gen now
       (w\<lparr>timer := fst (toggleTimer_ev cfg now (timer w))\<rparr>)"

text \<open>
  \<open>n\<close> countdowns in a row, each started with the start button and left to run to its
  end; the countdown number \<open>k\<close> (from 0) is started at the instant \<open>starts k\<close>. From
  work mode the countdowns alternate between work and the break that follows it.
\<close>

fun countdowns ::
  "nat \<Rightarrow> string option \<Rightarrow> Settings \<Rightarrow> (Store \<Rightarrow> string) \<Rightarrow> (nat \<Rightarrow> timestamp) \<Rightarrow> World
     \<Rightarrow> World" where
  "countdowns 0 currentUser cfg gen starts w = w"
| "countdowns (Suc n) currentUser cfg gen starts w =
     runCountdown currentUser cfg gen (starts n) (countdowns n currentUser cfg gen starts w)"

subsection \<open>ProgressTracker: the chart effect\<close>

datatype TimeRange = week | month

text \<open>
  The part of the component's state the effect writes for the bar chart and the totals
  (the per-task statistics, computed after them from the same filtered sessions, are
  left out). A bucket is a label and a count.
\<close>

record Progress =
  chartData :: "(string \<times> int) list"
  totalPomodoros :: int
  totalFocusTime :: int

definition initialProgress :: Progress where
  "initialProgress = \<lparr>chartData = [], totalPomodoros = 0, totalFocusTime = 0\<rparr>"

text \<open>
  Dates. The browser's time zone is a parameter, given as the language gives it: the
  offset of local time from UTC (milliseconds east) at an instant, and the offset by
  which a local time value is read back as an instant (for a local time that a clock
  change skips or repeats, the zone decides). \<^verbatim>\<open>getFullYear\<close>, \<^verbatim>\<open>getMonth\<close> and
  \<^verbatim>\<open>getDate\<close> read the local time of an instant, and \<^verbatim>\<open>new Date(y, m, d)\<close> and
  \<^verbatim>\<open>setDate\<close> build a local time and read it back. A calendar date is represented
  by its day number: \<^verbatim>\<open>toISOString().split('T')[0]\<close> is the UTC calendar date of an
  instant, and the day number determines the string.
\<close>

record TimeZone =
  offsetAt :: "timestamp \<Rightarrow> int"
  offsetOfLocal :: "int \<Rightarrow> int"

definition dayMs :: int where
  "dayMs = 86400000"

definition LocalTime :: "TimeZone \<Rightarrow> timestamp \<Rightarrow> int" where
  "LocalTime tz t = t + offsetAt tz t"

definition fromLocal :: "TimeZone \<Rightarrow> int \<Rightarrow> timestamp" where
  "fromLocal tz l = l - offsetOfLocal tz l"

text \<open>
  \<^verbatim>\<open>new Date(now.getFullYear(), now.getMonth(), now.getDate())\<close>: the start of the
  local calendar day of \<open>now\<close>.
\<close>

definition localMidnight :: "TimeZone \<Rightarrow> timestamp \<Rightarrow> timestamp" where
  "localMidnight tz now = fromLocal tz ((LocalTime tz now div dayMs) * dayMs)"

text \<open>
  \<^verbatim>\<open>d.setDate(d.getDate() + k)\<close>: the same local time of day, \<open>k\<close> calendar days
  later.
\<close>

definition addDays :: "TimeZone \<Rightarrow> int \<Rightarrow> timestamp \<Rightarrow> timestamp" where
  "addDays tz k d = fromLocal tz (LocalTime tz d + k * dayMs)"

definition dateKey :: "timestamp \<Rightarrow> int" where
  "dateKey t = t div dayMs"

text \<open>
  \<^verbatim>\<open>Map.prototype.set\<close> and \<^verbatim>\<open>get\<close> on a map that keeps its keys in the order of
  their first insertion.
\<close>

fun map_set :: "'k \<Rightarrow> 'v \<Rightarrow> ('k \<times> 'v) list \<Rightarrow> ('k \<times> 'v) list" where
  "map_set k v [] = [(k, v)]"
| "map_set k v ((k', v') # m) = (if k' = k then (k, v) # m else (k', v') # map_set k v m)"

fun map_get :: "('k \<times> 'v) list \<Rightarrow> 'k \<Rightarrow> 'v option" where
  "map_get [] k = None"
| "map_get ((k', v') # m) k = (if k' = k then Some v' else map_get m k)"

text \<open>
  \<^verbatim>\<open>for (let d = new Date(startDate); d <= today; d.setDate(d.getDate() + 1))\<close>.
  Nothing in the loop bounds the zone's offsets, so the loop is a partial function:
  \<open>None\<close> stands for a loop that does not end.
\<close>

partial_function (option) initDates ::
  "TimeZone \<Rightarrow> timestamp \<Rightarrow> timestamp \<Rightarrow> (int \<times> int) list \<Rightarrow> (int \<times> int) list option" where
  "initDates tz d today dateMap =
     (if d \<le> today
      then initDates tz (addDays tz 1 d) today (map_set (dateKey d) 0 dateMap)
      else Some dateMap)"

declare initDates.simps [code]

text \<open>\<^verbatim>\<open>dateMap.set(dateKey, (dateMap.get(dateKey) || 0) + 1)\<close> for each session.\<close>

definition countSession :: "PomodoroSession \<Rightarrow> (int \<times> int) list \<Rightarrow> (int \<times> int) list" where
  "countSession session dateMap =
     (let k = dateKey (startTime session)
      in map_set k ((case map_get dateMap k of None \<Rightarrow> 0 | Some c \<Rightarrow> or_zero c) + 1) dateMap)"

text \<open>
  The start of the window: \<^verbatim>\<open>startDate.setDate(startDate.getDate() - 6)\<close> for the
  week, \<^verbatim>\<open>- 29\<close> for the month, from the start of today.
\<close>

definition daysBack :: "TimeRange \<Rightarrow> int" where
  "daysBack timeRange = (case timeRange of week \<Rightarrow> 6 | month \<Rightarrow> 29)"

definition windowStart :: "TimeZone \<Rightarrow> timestamp \<Rightarrow> TimeRange \<Rightarrow> timestamp" where
  "windowStart tz now timeRange =
     addDays tz (- daysBack timeRange) (localMidnight tz now)"

text \<open>
  The effect. \<open>fmt\<close> renders the label of a bucket from its date
  (\<^verbatim>\<open>toLocaleDateString\<close>). When the hook is loading or holds no session the effect
  returns before any setter, and the state stays as it was. The result is \<open>None\<close> when
  the loop over the dates does not end.
\<close>

definition progressEffect ::
  "TimeZone \<Rightarrow> (TimeRange \<Rightarrow> int \<Rightarrow> string) \<Rightarrow> timestamp \<Rightarrow> bool \<Rightarrow> PomodoroSession list
     \<Rightarrow> TimeRange \<Rightarrow> Progress \<Rightarrow> Progress option" where
  "progressEffect tz fmt now loading sess timeRange p =
     (if loading \<or> length sess = 0 then Some p
      else
        let today = localMidnight tz now;
            startDate = windowStart tz now timeRange;
            filteredSessions =
              filter (\<lambda>session. startTime session \<ge> startDate \<and> type session = work_session)
                sess
        in case initDates tz startDate today [] of
             None \<Rightarrow> None
           | Some initialised \<Rightarrow>
               let dateMap = fold countSession filteredSessions initialised
               in Some (p\<lparr>totalPomodoros := int (length filteredSessions),
                          totalFocusTime :=
                            fold (\<lambda>session sum. sum + duration session) filteredSessions 0,
                          chartData :=
                            map (\<lambda>(date, count). (fmt timeRange date, count)) dateMap\<rparr>))"


subsection \<open>Concrete states\<close>

definition emptyStore :: Store where
  "emptyStore =
     \<lparr>tasks_c = Map.empty, pomodoroSessions_c = Map.empty, userSettings_c = Map.empty\<rparr>"

definition exampleTask :: "string \<Rightarrow> bool \<Rightarrow> int \<Rightarrow> Task" where
  "exampleTask ident done ord =
     \<lparr>title = ident, description = None, completed = done, createdAt = 0, updatedAt = 0,
      pomodorosCompleted = 0, userId = ''u1'', order = ord, id_t = ident\<rparr>"

definition exampleInput :: TaskInput where
  "exampleInput =
     \<lparr>title_i = ''write report'', description_i = None, completed_i = False,
      pomodorosCompleted_i = 0\<rparr>"

definition emptySessionsHook :: SessionsHook where
  "emptySessionsHook = \<lparr>sessions = [], loading_s = False, error_s = None\<rparr>"

definition workingTimer :: "timestamp \<Rightarrow> Timer" where
  "workingTimer start =
     \<lparr>timeLeft = 1, isActive = True, mode = work, selectedTaskId = Some ''task1'',
      completedPomodoros = 0, startTimeRef = Some start\<rparr>"

definition exampleStore :: Store where
  "exampleStore =
     emptyStore\<lparr>tasks_c :=
       [''task1'' \<mapsto> \<lparr>title = ''write report'', description = None, completed = False,
                       createdAt = 0, updatedAt = 0, pomodorosCompleted = 2,
                       userId = ''u1'', order = 0\<rparr>]\<rparr>"

definition exampleSession :: "string \<Rightarrow> SessionType \<Rightarrow> SessionInput" where
  "exampleSession task ty =
     \<lparr>taskId = task, startTime = 10000, endTime = 100700, duration = 90, type = ty\<rparr>"

text \<open>A timer that was started at instant 1000 and paused at instant 5000.\<close>

definition pausedTimer :: Timer where
  "pausedTimer =
     (let t0 = (initialTimer defaultSettings)\<lparr>selectedTaskId := Some ''task1''\<rparr>;
          t1 = fst (toggleTimer_ev defaultSettings 1000 t0)
      in fst (toggleTimer_ev defaultSettings 5000 t1))"

definition threeTasks :: "Task list" where
  "threeTasks =
     [exampleTask ''a'' False 0, exampleTask ''x'' True 1, exampleTask ''b'' False 2]"

text \<open>A paused timer in work mode with a task selected, and nothing completed yet.\<close>

definition readyWorld :: World where
  "readyWorld =
     \<lparr>timer = (initialTimer defaultSettings)\<lparr>selectedTaskId := Some ''task1''\<rparr>,
      sessionsHook = emptySessionsHook, store = exampleStore\<rparr>"

definition constId :: "Store \<Rightarrow> string" where
  "constId st = ''s1''"

definition hourly :: "nat \<Rightarrow> timestamp" where
  "hourly k = int k * 3600000"

definition plainLabel :: "TimeRange \<Rightarrow> int \<Rightarrow> string" where
  "plainLabel timeRange date = ''day''"


text \<open>
  A zone on UTC until the instant 1711846800000 (31 March 2024, 01:00 UTC) and an hour
  ahead from then on; the local hour that the change skips is read with the offset
  before the change.
\<close>

definition springZone :: TimeZone where
  "springZone =
     \<lparr>offsetAt = (\<lambda>t. if t < 1711846800000 then 0 else 3600000),
      offsetOfLocal = (\<lambda>l. if l < 1711846800000 + 3600000 then 0 else 3600000)\<rparr>"


text \<open>Noon UTC on 3 April 2024.\<close>

definition aprilNoon :: timestamp where
  "aprilNoon = 1712145600000"

text \<open>A work session of the first day of 1970, and an instant in November 2023.\<close>

definition oldSession :: PomodoroSession where
  "oldSession =
     \<lparr>taskId = ''task1'', startTime = 10000, endTime = 100700, duration = 90,
      type = work_session, userId_s = ''u1'', id_s = ''s0''\<rparr>"


subsection \<open>The reorder of the specification\<close>

text \<open>
  Following the specification's words, for comparison with \<open>handleDragEnd\<close>: the
  slots that the tasks of the filtered subset occupy in the full list are filled, in
  order, with the subset's new arrangement; the other tasks keep their slots.
\<close>

fun refill_slots :: "('a \<Rightarrow> bool) \<Rightarrow> 'a list \<Rightarrow> 'a list \<Rightarrow> 'a list" where
  "refill_slots P [] qs = []"
| "refill_slots P (t # ts) qs =
     (if P t
      then (case qs of [] \<Rightarrow> refill_slots P ts [] | q # qs' \<Rightarrow> q # refill_slots P ts qs')
      else t # refill_slots P ts qs)"

section \<open>Properties\<close>

subsection \<open>Shared lemmas\<close>

lemma runEffects_same [simp]: "runEffects cfg now t t = t"
  by (simp add: runEffects_def)

lemma Math_max_Max: "xs \<noteq> [] \<Longrightarrow> Math_max xs = Some (Max (set xs))"
proof (induction xs)
  case Nil
  then show ?case by simp
next
  case (Cons x xs)
  show ?case
  proof (cases "xs = []")
    case True
    then show ?thesis by simp
  next
    case False
    with Cons.IH have "Math_max xs = Some (Max (set xs))" by simp
    with False show ?thesis by (simp add: max.commute)
  qed
qed

lemma highestOrder_Max:
  "highestOrder ts = (if ts = [] then - 1 else Max (set (map order ts)))"
  by (simp add: highestOrder_def Math_max_Max)

subsection \<open>Task list\<close>

text \<open>
  C9. \<^verbatim>\<open>addTask\<close> for a signed-in user appends one task whose order is the maximum
  order of the tasks already in the list plus one, or 0 when the list is empty; this
  order is strictly greater than the order of every task already there. As this holds
  from every list, it holds at each step of a sequence of adds.
\<close>

theorem addTask_order_after_all:
  "\<exists>t. addTask (Some uid) now newId taskData (h, st)
          = (Some t, h\<lparr>tasks := tasks h @ [t]\<rparr>,
             st\<lparr>tasks_c := (tasks_c st)(newId \<mapsto> TaskDoc.truncate t)\<rparr>)
       \<and> id_t t = newId
       \<and> order t = (if tasks h = [] then 0 else Max (set (map order (tasks h))) + 1)
       \<and> (\<forall>t' \<in> set (tasks h). order t' < order t)"
  apply (simp add: addTask_def Let_def addDoc_def TaskDoc.extend_def Task.fields_def
      TaskDoc.truncate_def)
  apply (auto simp: highestOrder_Max)
  done

theorem addTask_order_after_all_witness:
  "\<exists>t. fst (addTask (Some ''u1'') 10 ''t9'' exampleInput
              (\<lparr>tasks = [exampleTask ''a'' False 2, exampleTask ''b'' True 5],
                loading_t = False, error_t = None\<rparr>, emptyStore)) = Some t
       \<and> order t = 6
       \<and> order (exampleTask ''a'' False 2) < order t
       \<and> order (exampleTask ''b'' True 5) < order t"
  using addTask_order_after_all [of "''u1''" 10 "''t9''" exampleInput
      "\<lparr>tasks = [exampleTask ''a'' False 2, exampleTask ''b'' True 5],
        loading_t = False, error_t = None\<rparr>" emptyStore]
  by (auto simp: exampleTask_def)

subsection \<open>Timer\<close>

text \<open>
  C6. In work mode with no task selected, pressing start on a timer that is not
  running changes nothing in the timer's state (it stays not running, the countdown and
  the start marker are as before) and raises the alert that asks for a task.
\<close>

theorem start_without_task_refused:
  "mode t = work \<Longrightarrow> no_task (selectedTaskId t) \<Longrightarrow> \<not> isActive t \<Longrightarrow>
   toggleTimer_ev cfg now t
     = (t, Some ''Please select a task before starting a work session'')"
  by (simp add: toggleTimer_ev_def toggleTimer_def)

theorem start_without_task_refused_witness:
  "mode (initialTimer defaultSettings) = work
   \<and> no_task (selectedTaskId (initialTimer defaultSettings))
   \<and> \<not> isActive (initialTimer defaultSettings)
   \<and> toggleTimer_ev defaultSettings 1000 (initialTimer defaultSettings)
       = (initialTimer defaultSettings,
          Some ''Please select a task before starting a work session'')"
proof -
  have m: "mode (initialTimer defaultSettings) = work"
    by (simp add: initialTimer_def)
  have n: "no_task (selectedTaskId (initialTimer defaultSettings))"
    by (simp add: initialTimer_def no_task_def)
  have a: "\<not> isActive (initialTimer defaultSettings)"
    by (simp add: initialTimer_def)
  show ?thesis
    using m n a start_without_task_refused [OF m n a, of defaultSettings 1000] by simp
qed

subsection \<open>Signed-out users\<close>

text \<open>
  C10. With no signed-in user each mutating operation of the hooks returns
  \<^verbatim>\<open>null\<close> (\<open>None\<close>) or \<^verbatim>\<open>false\<close> and leaves the store and the hook's in-memory
  state as they were.
\<close>

theorem unauthenticated_mutations_rejected:
  "addTask None now newId taskData (ht, st) = (None, ht, st)
   \<and> updateTask None now ident fs (ht, st) = (False, ht, st)
   \<and> deleteTask None ident (ht, st) = (False, ht, st)
   \<and> reorderTasks None now ts (ht, st) = (False, ht, st)
   \<and> addSession None now newId sessionData (hs, st) = (None, hs, st)
   \<and> updateSettings None newId newSettings (hu, st) = (False, hu, st)"
  by (simp add: addTask_def updateTask_def deleteTask_def reorderTasks_def addSession_def
      updateSettings_def)

subsection \<open>Session recorder\<close>

lemma addSession_persists:
  "addSession (Some uid) now newId sd (h, st) = (r, h', st') \<Longrightarrow>
   pomodoroSessions_c st' newId = Some (SessionInput.extend sd (SessionDoc.fields uid))
   \<and> sessions h' = SessionDoc.extend (SessionInput.extend sd (SessionDoc.fields uid))
                      (PomodoroSession.fields newId) # sessions h"
  by (auto simp: addSession_def Let_def addDoc_def getDoc_def updateDoc_def
      split: if_splits option.splits sum.splits)

text \<open>
  C7. When a work countdown of a signed-in user with a selected task ends, the session
  that is stored and put in front of the in-memory list runs from the recorded start to
  the instant of completion, and its duration is the floor of their difference in
  seconds (instants are in milliseconds); a difference of 90.7 s gives 90.
\<close>

theorem recorded_duration_floor:
  assumes "mode (timer w) = work"
    and "selectedTaskId (timer w) = Some sel" and "sel \<noteq> []"
    and "startTimeRef (timer w) = Some start"
    and "handleTimerComplete (Some uid) cfg now newId w = w'"
  shows "\<exists>s d. sessions (sessionsHook w') = s # sessions (sessionsHook w)
           \<and> pomodoroSessions_c (store w') newId = Some d
           \<and> taskId s = sel \<and> startTime s = start \<and> endTime s = now
           \<and> duration s = \<lfloor>real_of_int (endTime s - startTime s) / 1000\<rfloor>
           \<and> duration d = duration s
           \<and> (now = start + 90700 \<longrightarrow> duration s = 90)"
proof -
  obtain r h' st' where a: "addSession (Some uid) now newId
       \<lparr>taskId = sel, startTime = start, endTime = now,
        duration = (now - start) div 1000, type = work_session\<rparr>
       (sessionsHook w, store w) = (r, h', st')"
    by (metis prod_cases3)
  have "\<lfloor>real_of_int (now - start) / 1000\<rfloor> = (now - start) div 1000"
    using floor_divide_of_int_eq [of "now - start" 1000, where ?'a = real] by simp
  then have fl: "\<lfloor>(real_of_int now - real_of_int start) / 1000\<rfloor> = (now - start) div 1000"
    by simp
  from assms a have w': "sessionsHook w' = h'" "store w' = st'"
    by (auto simp: handleTimerComplete_def Let_def no_task_def)
  from addSession_persists [OF a] show ?thesis
    unfolding w'
    by (auto simp: fl SessionInput.extend_def SessionDoc.extend_def SessionDoc.fields_def
        PomodoroSession.fields_def)
qed

theorem recorded_duration_floor_witness:
  "\<exists>s d. sessions (sessionsHook
             (handleTimerComplete (Some ''u1'') defaultSettings 100700 ''s1''
                \<lparr>timer = workingTimer 10000, sessionsHook = emptySessionsHook,
                 store = emptyStore\<rparr>)) = [s]
         \<and> pomodoroSessions_c (store
             (handleTimerComplete (Some ''u1'') defaultSettings 100700 ''s1''
                \<lparr>timer = workingTimer 10000, sessionsHook = emptySessionsHook,
                 store = emptyStore\<rparr>)) ''s1'' = Some d
         \<and> duration s = 90 \<and> duration d = 90"
  using recorded_duration_floor [of
      "\<lparr>timer = workingTimer 10000, sessionsHook = emptySessionsHook, store = emptyStore\<rparr>"
      "''task1''" 10000 "''u1''" defaultSettings 100700 "''s1''"]
  by (auto simp: workingTimer_def emptySessionsHook_def)

text \<open>
  C8. \<^verbatim>\<open>addSession\<close> for a signed-in user always stores the session. For a work
  session whose task is in the store, the task's stored document is replaced by itself
  with \<open>pomodorosCompleted\<close> one higher than the stored value (and \<open>updatedAt\<close>
  refreshed), and no other task document changes; when the task is not in the store the
  task collection is unchanged and the call still returns the session. A break session
  leaves the task collection unchanged.
\<close>

theorem addSession_counter:
  assumes "addSession (Some uid) now newId sd (h, st) = (r, h', st')"
  shows "pomodoroSessions_c st' newId = Some (SessionInput.extend sd (SessionDoc.fields uid))
     \<and> (type sd = work_session \<longrightarrow>
          (case tasks_c st (taskId sd) of
             Some d \<Rightarrow>
               tasks_c st' = (tasks_c st)(taskId sd \<mapsto>
                  d\<lparr>pomodorosCompleted := pomodorosCompleted d + 1, updatedAt := now\<rparr>)
           | None \<Rightarrow> tasks_c st' = tasks_c st \<and> r \<noteq> None))
     \<and> (type sd = break_session \<longrightarrow> tasks_c st' = tasks_c st)"
  using assms
  by (auto simp: addSession_def Let_def addDoc_def getDoc_def updateDoc_def spread_def
      or_zero_def split: if_splits option.splits sum.splits)

theorem addSession_counter_witness:
  "(\<exists>r h' st'. addSession (Some ''u1'') 200000 ''s1'' (exampleSession ''task1'' work_session)
                   (emptySessionsHook, exampleStore) = (r, h', st')
       \<and> pomodoroSessions_c st' ''s1'' \<noteq> None
       \<and> map_option pomodorosCompleted (tasks_c st' ''task1'') = Some 3)
   \<and> (\<exists>r h' st'. addSession (Some ''u1'') 200000 ''s1'' (exampleSession ''gone'' work_session)
                   (emptySessionsHook, exampleStore) = (r, h', st')
       \<and> pomodoroSessions_c st' ''s1'' \<noteq> None \<and> r \<noteq> None
       \<and> tasks_c st' = tasks_c exampleStore)
   \<and> (\<exists>r h' st'. addSession (Some ''u1'') 200000 ''s1'' (exampleSession ''task1'' break_session)
                   (emptySessionsHook, exampleStore) = (r, h', st')
       \<and> pomodoroSessions_c st' ''s1'' \<noteq> None
       \<and> tasks_c st' = tasks_c exampleStore)"
proof (intro conjI)
  obtain r h' st' where a: "addSession (Some ''u1'') 200000 ''s1''
      (exampleSession ''task1'' work_session) (emptySessionsHook, exampleStore) = (r, h', st')"
    by (metis prod_cases3)
  from addSession_counter [OF a]
  have "pomodoroSessions_c st' ''s1'' \<noteq> None
       \<and> map_option pomodorosCompleted (tasks_c st' ''task1'') = Some 3"
    by (simp add: exampleSession_def exampleStore_def emptyStore_def)
  with a show "\<exists>r h' st'. addSession (Some ''u1'') 200000 ''s1''
      (exampleSession ''task1'' work_session) (emptySessionsHook, exampleStore) = (r, h', st')
       \<and> pomodoroSessions_c st' ''s1'' \<noteq> None
       \<and> map_option pomodorosCompleted (tasks_c st' ''task1'') = Some 3"
    by blast
next
  obtain r h' st' where a: "addSession (Some ''u1'') 200000 ''s1''
      (exampleSession ''gone'' work_session) (emptySessionsHook, exampleStore) = (r, h', st')"
    by (metis prod_cases3)
  from addSession_counter [OF a]
  have "pomodoroSessions_c st' ''s1'' \<noteq> None \<and> r \<noteq> None
       \<and> tasks_c st' = tasks_c exampleStore"
    by (simp add: exampleSession_def exampleStore_def emptyStore_def)
  with a show "\<exists>r h' st'. addSession (Some ''u1'') 200000 ''s1''
      (exampleSession ''gone'' work_session) (emptySessionsHook, exampleStore) = (r, h', st')
       \<and> pomodoroSessions_c st' ''s1'' \<noteq> None \<and> r \<noteq> None
       \<and> tasks_c st' = tasks_c exampleStore"
    by blast
next
  obtain r h' st' where a: "addSession (Some ''u1'') 200000 ''s1''
      (exampleSession ''task1'' break_session) (emptySessionsHook, exampleStore) = (r, h', st')"
    by (metis prod_cases3)
  from addSession_counter [OF a]
  have "pomodoroSessions_c st' ''s1'' \<noteq> None
       \<and> tasks_c st' = tasks_c exampleStore"
    by (simp add: exampleSession_def exampleStore_def emptyStore_def)
  with a show "\<exists>r h' st'. addSession (Some ''u1'') 200000 ''s1''
      (exampleSession ''task1'' break_session) (emptySessionsHook, exampleStore) = (r, h', st')
       \<and> pomodoroSessions_c st' ''s1'' \<noteq> None
       \<and> tasks_c st' = tasks_c exampleStore"
    by blast
qed

subsection \<open>Settings\<close>

text \<open>
  C3. The first fetch of a user without a settings document, from the initial hook
  state and an empty store: the in-memory settings are the defaults 25 / 5 / 15 / 4 and
  a document with these values is created, but under the generated identifier, not
  under the user's uid. The document the fetch reads (the one named by the uid) is
  still absent, so the next fetch creates a second document.
\<close>

theorem fetchSettings_record_not_keyed_by_user:
  "(case fetchSettings (Some ''u1'') ''auto1'' (initialSettingsHook, emptyStore) of
      (h1, st1) \<Rightarrow>
        settings h1 = defaultSettings
        \<and> getDoc (userSettings_c st1) ''u1'' = None
        \<and> map_option Settings.truncate (getDoc (userSettings_c st1) ''auto1'')
            = Some defaultSettings
        \<and> (case fetchSettings (Some ''u1'') ''auto2'' (h1, st1) of
              (h2, st2) \<Rightarrow>
                getDoc (userSettings_c st2) ''u1'' = None
                \<and> getDoc (userSettings_c st2) ''auto1'' \<noteq> None
                \<and> getDoc (userSettings_c st2) ''auto2'' \<noteq> None))"
  by (simp add: fetchSettings_def updateSettings_def getDoc_def updateDoc_def addDoc_def
      initialSettingsHook_def emptyStore_def defaultSettings_def Settings.extend_def
      SettingsDoc.fields_def Settings.truncate_def)

text \<open>
  The same for every user and store: whatever identifier other than the uid the store
  generates, a fetch that finds no document leaves none under the uid.
\<close>

lemma fetchSettings_absent_stays_absent:
  "userSettings_c st uid = None \<Longrightarrow> newId \<noteq> uid \<Longrightarrow>
   getDoc (userSettings_c (snd (fetchSettings (Some uid) newId (h, st)))) uid = None"
  by (simp add: fetchSettings_def updateSettings_def getDoc_def updateDoc_def addDoc_def)

subsection \<open>Mode switches\<close>

lemma pausedTimer_eq:
  "pausedTimer =
     \<lparr>timeLeft = 1500, isActive = False, mode = work, selectedTaskId = Some ''task1'',
      completedPomodoros = 0, startTimeRef = Some 1000\<rparr>"
  by (simp add: pausedTimer_def initialTimer_def defaultSettings_def toggleTimer_ev_def
      toggleTimer_def runEffects_def activeEffect_def no_task_def Let_def)

text \<open>
  C4. A switch to the short break on a timer that was started at instant 1000 and then
  paused: the countdown is set to the 300 seconds of the short break, and the start
  marker is still the instant 1000.
\<close>

theorem switchMode_paused_keeps_start_marker:
  "switchMode_ev defaultSettings 6000 False shortBreak pausedTimer
     = \<lparr>timeLeft = 300, isActive = False, mode = shortBreak,
        selectedTaskId = Some ''task1'', completedPomodoros = 0,
        startTimeRef = Some 1000\<rparr>"
  by (simp add: pausedTimer_eq switchMode_ev_def switchMode_def runEffects_def
      modeEffect_def modeDuration_def defaultSettings_def)

text \<open>
  The two other ways into a mode do reset the countdown and clear the marker: a
  confirmed switch to another mode while running, and the end of a countdown.
\<close>

lemma switchMode_running_resets:
  "isActive t \<Longrightarrow> newMode \<noteq> mode t \<Longrightarrow> t' = switchMode_ev cfg now True newMode t \<Longrightarrow>
   mode t' = newMode \<and> timeLeft t' = modeDuration cfg newMode
   \<and> startTimeRef t' = None \<and> \<not> isActive t'"
  by (simp add: switchMode_ev_def switchMode_def runEffects_def modeEffect_def
      activeEffect_def)

lemma tick_completion_resets:
  "isActive (timer w) \<Longrightarrow> timeLeft (timer w) \<le> 1
   \<Longrightarrow> t' = timer (tick_ev u cfg now newId w) \<Longrightarrow>
   mode t' \<noteq> mode (timer w) \<and> timeLeft t' = modeDuration cfg (mode t')
   \<and> startTimeRef t' = None \<and> \<not> isActive t'"
  by (auto simp: tick_ev_def tick_def handleTimerComplete_def Let_def runEffects_def
      modeEffect_def activeEffect_def nextAfterWork_def split: option.splits prod.splits)

subsection \<open>The sequence of modes\<close>

lemma countdown_inactive: "\<not> isActive (timer w) \<Longrightarrow> countdown u cfg gen now w = w"
  by (subst countdown.simps) simp

lemma tick_ev_step:
  "isActive (timer w) \<Longrightarrow> \<not> timeLeft (timer w) \<le> 1 \<Longrightarrow>
   timer (tick_ev u cfg now newId w) = (timer w)\<lparr>timeLeft := timeLeft (timer w) - 1\<rparr>"
  by (simp add: tick_ev_def tick_def Let_def runEffects_def)

lemma handleTimerComplete_work:
  assumes "mode (timer w) = work" "selectedTaskId (timer w) = Some sel" "sel \<noteq> []"
    "startTimeRef (timer w) = Some start"
  shows "timer (handleTimerComplete u cfg now newId w) =
     (timer w)\<lparr>isActive := False,
               mode := nextAfterWork cfg (completedPomodoros (timer w)),
               completedPomodoros := completedPomodoros (timer w) + 1,
               startTimeRef := None\<rparr>"
proof -
  obtain r h' st' where a: "addSession u now newId
       \<lparr>taskId = sel, startTime = start, endTime = now,
        duration = (now - start) div 1000, type = work_session\<rparr>
       (sessionsHook w, store w) = (r, h', st')"
    by (metis prod_cases3)
  show ?thesis
    using assms a by (simp add: handleTimerComplete_def Let_def no_task_def nextAfterWork_def)
qed

lemma handleTimerComplete_break:
  assumes "mode (timer w) \<noteq> work"
  shows "timer (handleTimerComplete u cfg now newId w) =
     (timer w)\<lparr>isActive := False, mode := work, startTimeRef := None\<rparr>"
  using assms
  by (simp add: handleTimerComplete_def Let_def split: option.splits)

lemma nextAfterWork_not_work: "nextAfterWork cfg c \<noteq> work"
  by (simp add: nextAfterWork_def)

lemma tick_ev_work_done:
  assumes "isActive (timer w)" "timeLeft (timer w) \<le> 1" "mode (timer w) = work"
    "selectedTaskId (timer w) = Some sel" "sel \<noteq> []" "startTimeRef (timer w) \<noteq> None"
  shows "timer (tick_ev u cfg now newId w) =
     (timer w)\<lparr>timeLeft := modeDuration cfg (nextAfterWork cfg (completedPomodoros (timer w))),
               isActive := False,
               mode := nextAfterWork cfg (completedPomodoros (timer w)),
               completedPomodoros := completedPomodoros (timer w) + 1,
               startTimeRef := None\<rparr>"
proof -
  from assms(6) obtain start where st: "startTimeRef (timer w) = Some start" by auto
  let ?w0 = "w\<lparr>timer := (timer w)\<lparr>timeLeft := 0\<rparr>\<rparr>"
  have "timer (handleTimerComplete u cfg now newId ?w0) =
     (timer ?w0)\<lparr>isActive := False,
               mode := nextAfterWork cfg (completedPomodoros (timer ?w0)),
               completedPomodoros := completedPomodoros (timer ?w0) + 1,
               startTimeRef := None\<rparr>"
    using assms(3-5) st by (intro handleTimerComplete_work [where sel = sel and start = start]) simp_all
  then show ?thesis
    using assms(1-3) nextAfterWork_not_work [of cfg "completedPomodoros (timer w)"]
    by (simp add: tick_ev_def tick_def Let_def runEffects_def modeEffect_def activeEffect_def)
qed

lemma tick_ev_break_done:
  assumes "isActive (timer w)" "timeLeft (timer w) \<le> 1" "mode (timer w) \<noteq> work"
  shows "timer (tick_ev u cfg now newId w) =
     (timer w)\<lparr>timeLeft := modeDuration cfg work, isActive := False, mode := work,
               startTimeRef := None\<rparr>"
proof -
  let ?w0 = "w\<lparr>timer := (timer w)\<lparr>timeLeft := 0\<rparr>\<rparr>"
  have "timer (handleTimerComplete u cfg now newId ?w0) =
     (timer ?w0)\<lparr>isActive := False, mode := work, startTimeRef := None\<rparr>"
    using assms(3) by (intro handleTimerComplete_break) simp
  then show ?thesis
    using assms
    by (simp add: tick_ev_def tick_def Let_def runEffects_def modeEffect_def activeEffect_def)
qed

lemma countdown_work:
  "isActive (timer w) \<Longrightarrow> mode (timer w) = work \<Longrightarrow> selectedTaskId (timer w) = Some sel
   \<Longrightarrow> sel \<noteq> [] \<Longrightarrow> startTimeRef (timer w) \<noteq> None \<Longrightarrow>
   timer (countdown u cfg gen now w) =
     (timer w)\<lparr>timeLeft := modeDuration cfg (nextAfterWork cfg (completedPomodoros (timer w))),
               isActive := False,
               mode := nextAfterWork cfg (completedPomodoros (timer w)),
               completedPomodoros := completedPomodoros (timer w) + 1,
               startTimeRef := None\<rparr>"
proof (induction u cfg gen now w rule: countdown.induct)
  case (1 u cfg gen now w)
  let ?w' = "tick_ev u cfg (now + 1000) (gen (store w)) w"
  have unfold: "countdown u cfg gen now w = countdown u cfg gen (now + 1000) ?w'"
    using "1.prems"(1) by (subst countdown.simps) simp
  show ?case
  proof (cases "timeLeft (timer w) \<le> 1")
    case True
    from tick_ev_work_done [OF "1.prems"(1) True "1.prems"(2-5)]
    have t: "timer ?w' = (timer w)\<lparr>timeLeft := modeDuration cfg (nextAfterWork cfg (completedPomodoros (timer w))),
               isActive := False,
               mode := nextAfterWork cfg (completedPomodoros (timer w)),
               completedPomodoros := completedPomodoros (timer w) + 1,
               startTimeRef := None\<rparr>" .
    then have "\<not> isActive (timer ?w')" by simp
    then have "countdown u cfg gen (now + 1000) ?w' = ?w'" by (rule countdown_inactive)
    with unfold t show ?thesis by simp
  next
    case False
    from tick_ev_step [OF "1.prems"(1) False]
    have t: "timer ?w' = (timer w)\<lparr>timeLeft := timeLeft (timer w) - 1\<rparr>" .
    have "timer (countdown u cfg gen (now + 1000) ?w') =
       (timer ?w')\<lparr>timeLeft := modeDuration cfg (nextAfterWork cfg (completedPomodoros (timer ?w'))),
               isActive := False,
               mode := nextAfterWork cfg (completedPomodoros (timer ?w')),
               completedPomodoros := completedPomodoros (timer ?w') + 1,
               startTimeRef := None\<rparr>"
      using "1.prems" by (intro "1.IH") (simp_all add: t)
    with unfold show ?thesis by (simp add: t)
  qed
qed

lemma countdown_break:
  "isActive (timer w) \<Longrightarrow> mode (timer w) \<noteq> work \<Longrightarrow>
   timer (countdown u cfg gen now w) =
     (timer w)\<lparr>timeLeft := modeDuration cfg work, isActive := False, mode := work,
               startTimeRef := None\<rparr>"
proof (induction u cfg gen now w rule: countdown.induct)
  case (1 u cfg gen now w)
  let ?w' = "tick_ev u cfg (now + 1000) (gen (store w)) w"
  have unfold: "countdown u cfg gen now w = countdown u cfg gen (now + 1000) ?w'"
    using "1.prems"(1) by (subst countdown.simps) simp
  show ?case
  proof (cases "timeLeft (timer w) \<le> 1")
    case True
    from tick_ev_break_done [OF "1.prems"(1) True "1.prems"(2)]
    have t: "timer ?w' = (timer w)\<lparr>timeLeft := modeDuration cfg work, isActive := False, mode := work,
               startTimeRef := None\<rparr>" .
    then have "\<not> isActive (timer ?w')" by simp
    then have "countdown u cfg gen (now + 1000) ?w' = ?w'" by (rule countdown_inactive)
    with unfold t show ?thesis by simp
  next
    case False
    from tick_ev_step [OF "1.prems"(1) False]
    have t: "timer ?w' = (timer w)\<lparr>timeLeft := timeLeft (timer w) - 1\<rparr>" .
    have "timer (countdown u cfg gen (now + 1000) ?w') =
       (timer ?w')\<lparr>timeLeft := modeDuration cfg work, isActive := False, mode := work,
               startTimeRef := None\<rparr>"
      using "1.prems" by (intro "1.IH") (simp_all add: t)
    with unfold show ?thesis by (simp add: t)
  qed
qed


lemma runCountdown_work:
  assumes "mode (timer w) = work" "\<not> isActive (timer w)"
    "selectedTaskId (timer w) = Some sel" "sel \<noteq> []"
  shows "timer (runCountdown u cfg gen now w) =
     (timer w)\<lparr>timeLeft := modeDuration cfg (nextAfterWork cfg (completedPomodoros (timer w))),
               isActive := False,
               mode := nextAfterWork cfg (completedPomodoros (timer w)),
               completedPomodoros := completedPomodoros (timer w) + 1,
               startTimeRef := None\<rparr>"
proof -
  let ?t = "fst (toggleTimer_ev cfg now (timer w))"
  have t: "?t = (timer w)\<lparr>isActive := True,
       startTimeRef := (case startTimeRef (timer w) of None \<Rightarrow> Some now | Some s \<Rightarrow> Some s)\<rparr>"
    using assms
    by (simp add: toggleTimer_ev_def toggleTimer_def no_task_def runEffects_def
        activeEffect_def split: option.splits)
  have "timer (countdown u cfg gen now (w\<lparr>timer := ?t\<rparr>)) =
     (timer (w\<lparr>timer := ?t\<rparr>))\<lparr>timeLeft := modeDuration cfg (nextAfterWork cfg (completedPomodoros (timer (w\<lparr>timer := ?t\<rparr>)))),
               isActive := False,
               mode := nextAfterWork cfg (completedPomodoros (timer (w\<lparr>timer := ?t\<rparr>))),
               completedPomodoros := completedPomodoros (timer (w\<lparr>timer := ?t\<rparr>)) + 1,
               startTimeRef := None\<rparr>"
    using assms by (intro countdown_work [where sel = sel]) (simp_all add: t split: option.splits)
  then show ?thesis
    by (simp add: runCountdown_def t)
qed

lemma runCountdown_break:
  assumes "mode (timer w) \<noteq> work" "\<not> isActive (timer w)"
  shows "timer (runCountdown u cfg gen now w) =
     (timer w)\<lparr>timeLeft := modeDuration cfg work, isActive := False, mode := work,
               startTimeRef := None\<rparr>"
proof -
  let ?t = "fst (toggleTimer_ev cfg now (timer w))"
  have t: "?t = (timer w)\<lparr>isActive := True,
       startTimeRef := (case startTimeRef (timer w) of None \<Rightarrow> Some now | Some s \<Rightarrow> Some s)\<rparr>"
    using assms
    by (simp add: toggleTimer_ev_def toggleTimer_def runEffects_def
        activeEffect_def split: option.splits)
  have "timer (countdown u cfg gen now (w\<lparr>timer := ?t\<rparr>)) =
     (timer (w\<lparr>timer := ?t\<rparr>))\<lparr>timeLeft := modeDuration cfg work, isActive := False, mode := work,
               startTimeRef := None\<rparr>"
    using assms by (intro countdown_break) (simp_all add: t)
  then show ?thesis
    by (simp add: runCountdown_def t)
qed

lemma countdowns_even:
  assumes "mode (timer w) = work" "\<not> isActive (timer w)"
    "selectedTaskId (timer w) = Some sel" "sel \<noteq> []" "completedPomodoros (timer w) = 0"
  shows "mode (timer (countdowns (2 * n) u cfg gen starts w)) = work
     \<and> \<not> isActive (timer (countdowns (2 * n) u cfg gen starts w))
     \<and> selectedTaskId (timer (countdowns (2 * n) u cfg gen starts w)) = Some sel
     \<and> completedPomodoros (timer (countdowns (2 * n) u cfg gen starts w)) = int n"
proof (induction n)
  case 0
  with assms show ?case by simp
next
  case (Suc n)
  let ?w0 = "countdowns (2 * n) u cfg gen starts w"
  let ?w1 = "runCountdown u cfg gen (starts (2 * n)) ?w0"
  let ?w2 = "runCountdown u cfg gen (starts (Suc (2 * n))) ?w1"
  have eq: "countdowns (2 * Suc n) u cfg gen starts w = ?w2" by simp
  from Suc.IH have w0: "mode (timer ?w0) = work" "\<not> isActive (timer ?w0)"
    "selectedTaskId (timer ?w0) = Some sel" "completedPomodoros (timer ?w0) = int n"
    by simp_all
  have t1: "timer ?w1 = (timer ?w0)\<lparr>timeLeft := modeDuration cfg (nextAfterWork cfg (completedPomodoros (timer ?w0))),
               isActive := False,
               mode := nextAfterWork cfg (completedPomodoros (timer ?w0)),
               completedPomodoros := completedPomodoros (timer ?w0) + 1,
               startTimeRef := None\<rparr>"
    by (rule runCountdown_work [OF w0(1-3) assms(4)])
  have m1: "mode (timer ?w1) \<noteq> work" "\<not> isActive (timer ?w1)"
    by (simp_all add: t1 nextAfterWork_not_work)
  have t2: "timer ?w2 = (timer ?w1)\<lparr>timeLeft := modeDuration cfg work, isActive := False, mode := work,
               startTimeRef := None\<rparr>"
    by (rule runCountdown_break [OF m1])
  show ?case unfolding eq by (simp add: t2 t1 w0)
qed

lemma js_rem_nonneg: "0 \<le> c \<Longrightarrow> 1 \<le> K \<Longrightarrow> js_rem c K = Some (c mod K)"
  by (cases "c = 0") (simp_all add: js_rem_def)

lemma mod_pred_iff_dvd:
  fixes K :: int
  assumes "1 \<le> K"
  shows "((n - 1) mod K = K - 1) = (K dvd n)"
proof
  assume a: "(n - 1) mod K = K - 1"
  have "n mod K = ((n - 1) mod K + 1) mod K"
    by (simp add: mod_add_left_eq)
  also have "\<dots> = 0" using a by simp
  finally show "K dvd n" by (simp add: dvd_eq_mod_eq_0)
next
  assume "K dvd n"
  then obtain q where q: "n = K * q" by (auto simp: dvd_def)
  have "n - 1 = (K - 1) + K * (q - 1)" by (simp add: q algebra_simps)
  then have "(n - 1) mod K = (K - 1) mod K" by (simp only: mod_mult_self2)
  also have "\<dots> = K - 1" using assms by (intro mod_pos_pos_trivial) simp_all
  finally show "(n - 1) mod K = K - 1" .
qed

text \<open>
  C5. From a paused timer in work mode with a task selected and no pomodoro completed,
  with a long-break interval \<open>K \<ge> 1\<close>: the countdowns are run one after the other, so
  that the first \<open>2 * N - 1\<close> of them end with the \<open>N\<close>-th work countdown. The mode
  entered at its end is the long break when \<open>K\<close> divides \<open>N\<close> and the short break
  otherwise; the mode entered at the end of the break that follows is work, as it is at
  the end of any countdown that is not a work countdown.
\<close>

theorem long_break_every_Kth:
  assumes "1 \<le> longBreakInterval cfg" and "1 \<le> N"
    and "mode (timer w) = work" "\<not> isActive (timer w)" "completedPomodoros (timer w) = 0"
    and "selectedTaskId (timer w) = Some sel" "sel \<noteq> []"
  shows "mode (timer (countdowns (2 * N - 1) u cfg gen starts w))
           = (if longBreakInterval cfg dvd int N then longBreak else shortBreak)
       \<and> mode (timer (countdowns (2 * N) u cfg gen starts w)) = work
       \<and> (mode (timer w') \<noteq> work \<longrightarrow>
            mode (timer (handleTimerComplete u cfg now newId w')) = work)"
proof -
  obtain n where N: "N = Suc n" using assms(2) by (cases N) auto
  let ?w0 = "countdowns (2 * n) u cfg gen starts w"
  from countdowns_even [OF assms(3,4,6,7,5), of n u cfg gen starts]
  have w0: "mode (timer ?w0) = work" "\<not> isActive (timer ?w0)"
    "selectedTaskId (timer ?w0) = Some sel" "completedPomodoros (timer ?w0) = int n"
    by simp_all
  have eq: "countdowns (2 * N - 1) u cfg gen starts w = runCountdown u cfg gen (starts (2 * n)) ?w0"
    by (simp add: N)
  have "mode (timer (countdowns (2 * N - 1) u cfg gen starts w)) = nextAfterWork cfg (int n)"
    unfolding eq by (simp add: runCountdown_work [OF w0(1-3) assms(7)] w0)
  moreover have "nextAfterWork cfg (int n) = (if longBreakInterval cfg dvd int N then longBreak else shortBreak)"
    using mod_pred_iff_dvd [OF assms(1), of "int N"] assms(1)
    by (simp add: nextAfterWork_def js_rem_nonneg N)
  moreover have "mode (timer (countdowns (2 * N) u cfg gen starts w)) = work"
    using countdowns_even [OF assms(3,4,6,7,5), of N u cfg gen starts] by simp
  moreover have "mode (timer w') \<noteq> work \<longrightarrow>
            mode (timer (handleTimerComplete u cfg now newId w')) = work"
    by (simp add: handleTimerComplete_break)
  ultimately show ?thesis by simp
qed

theorem long_break_every_Kth_witness:
  "mode (timer (countdowns (2 * 4 - 1) (Some ''u1'') defaultSettings constId hourly readyWorld))
     = longBreak
   \<and> mode (timer (countdowns (2 * 3 - 1) (Some ''u1'') defaultSettings constId hourly readyWorld))
     = shortBreak
   \<and> mode (timer (countdowns (2 * 4) (Some ''u1'') defaultSettings constId hourly readyWorld))
     = work"
proof -
  have K: "1 \<le> longBreakInterval defaultSettings"
    by (simp add: defaultSettings_def)
  have m: "mode (timer readyWorld) = work" and a: "\<not> isActive (timer readyWorld)"
    and c: "completedPomodoros (timer readyWorld) = 0"
    and s: "selectedTaskId (timer readyWorld) = Some ''task1''"
    by (simp_all add: readyWorld_def initialTimer_def)
  have ne: "''task1'' \<noteq> []" by simp
  have four: "(1::nat) \<le> 4" and three: "(1::nat) \<le> 3" by simp_all
  from long_break_every_Kth [OF K four m a c s ne,
      of "Some ''u1''" constId hourly readyWorld 0 "''s1''"]
    long_break_every_Kth [OF K three m a c s ne,
      of "Some ''u1''" constId hourly readyWorld 0 "''s1''"]
  show ?thesis by (simp add: defaultSettings_def)
qed

subsection \<open>Reordering by drag and drop\<close>

text \<open>
  C1. Three tasks \<open>a\<close>, \<open>x\<close>, \<open>b\<close> with orders 0, 1, 2, of which \<open>x\<close> is completed.
  Under the filter \<open>active\<close> the rows are \<open>a\<close>, \<open>b\<close>; dragging the first row below the
  second arranges the subset as \<open>b\<close>, \<open>a\<close>. The handler hands \<open>a\<close>, \<open>x\<close>, \<open>b\<close> with
  orders 0, 1, 2 to \<^verbatim>\<open>reorderTasks\<close>, the list as it was, where filling the subset's
  slots with its new arrangement gives \<open>b\<close>, \<open>x\<close>, \<open>a\<close>. Under the filter \<open>all\<close>,
  dragging the first row to the end gives the list as it was, too.
\<close>

theorem handleDragEnd_undoes_move:
  "handleDragEnd Filter_active threeTasks \<lparr>source_index = 0, destination_index = Some 1\<rparr>
     = Reorder [exampleTask ''a'' False 0, exampleTask ''x'' True 1, exampleTask ''b'' False 2]
   \<and> reindex (refill_slots (\<lambda>t. \<not> completed t) threeTasks
                 [exampleTask ''b'' False 2, exampleTask ''a'' False 0])
     = [exampleTask ''b'' False 0, exampleTask ''x'' True 1, exampleTask ''a'' False 2]
   \<and> handleDragEnd Filter_all threeTasks \<lparr>source_index = 0, destination_index = Some 2\<rparr>
     = Reorder [exampleTask ''a'' False 0, exampleTask ''x'' True 1, exampleTask ''b'' False 2]"
  by (simp add: handleDragEnd_def threeTasks_def getFilteredTasks_def exampleTask_def
      splice_insert_def splice_delete_def reindex_def Let_def)

text \<open>
  The cause, for every list: the handler sorts the merged list by the \<open>order\<close> fields,
  which still hold the positions from before the drag. When the in-memory list is in
  ascending order with distinct orders and identifiers, as it is after a fetch, an add
  or a reorder, every drag hands the list back in its old sequence.
\<close>

lemma mset_splice:
  assumes s: "s < length xs"
  shows "mset (splice_insert e (xs ! s) (splice_delete s xs)) = mset xs"
proof -
  define ys where "ys = splice_delete s xs"
  have h: "mset (take e ys) + mset (drop e ys) = mset ys"
    by (simp only: mset_append [symmetric] append_take_drop_id)
  have "mset (splice_insert e (xs ! s) ys) = mset ys + {#xs ! s#}"
    by (simp add: splice_insert_def h)
  also have "\<dots> = mset (take s xs @ xs ! s # drop (Suc s) xs)"
    by (simp add: ys_def splice_delete_def)
  also have "\<dots> = mset xs"
    using s by (simp only: id_take_nth_drop [symmetric])
  finally show ?thesis unfolding ys_def .
qed

lemma getFilteredTasks_filter:
  "getFilteredTasks flt ts =
     filter (\<lambda>t. case flt of Filter_all \<Rightarrow> True | Filter_active \<Rightarrow> \<not> completed t
                   | Filter_completed \<Rightarrow> completed t) ts"
  by (cases flt) (simp_all add: getFilteredTasks_def)

lemma nonFiltered_filter:
  assumes "distinct (map id_t ts)"
  shows "filter (\<lambda>task. \<not> list_ex (\<lambda>filteredTask. id_t filteredTask = id_t task)
                          (filter P ts)) ts
         = filter (\<lambda>t. \<not> P t) ts"
proof (rule filter_cong [OF refl])
  fix t assume t: "t \<in> set ts"
  have "list_ex (\<lambda>f. id_t f = id_t t) (filter P ts) \<longleftrightarrow> P t"
  proof
    assume "list_ex (\<lambda>f. id_t f = id_t t) (filter P ts)"
    then obtain f where f: "f \<in> set ts" "P f" "id_t f = id_t t"
      by (auto simp: list_ex_iff)
    from assms have "inj_on id_t (set ts)"
      by (simp add: distinct_map)
    with f t have "f = t"
      by (auto dest: inj_onD)
    with f show "P t" by simp
  next
    assume "P t"
    with t show "list_ex (\<lambda>f. id_t f = id_t t) (filter P ts)"
      by (auto simp: list_ex_iff)
  qed
  then show "(\<not> list_ex (\<lambda>filteredTask. id_t filteredTask = id_t t) (filter P ts))
               = (\<not> P t)"
    by simp
qed

lemma handleDragEnd_keeps_sequence:
  assumes srt: "sorted (map order ts)" and dord: "distinct (map order ts)"
    and dids: "distinct (map id_t ts)"
    and dst: "destination_index result = Some e" and ne: "source_index result \<noteq> e"
    and rng: "source_index result < length (getFilteredTasks flt ts)"
  shows "handleDragEnd flt ts result = Reorder (reindex ts)"
proof -
  define P where "P = (\<lambda>t::Task. case flt of Filter_all \<Rightarrow> True
                          | Filter_active \<Rightarrow> \<not> completed t
                          | Filter_completed \<Rightarrow> completed t)"
  define s where "s = source_index result"
  define reordered where
    "reordered = splice_insert e (filter P ts ! s) (splice_delete s (filter P ts))"
  have flt: "getFilteredTasks flt ts = filter P ts"
    unfolding P_def by (rule getFilteredTasks_filter)
  have "mset reordered = mset (filter P ts)"
    unfolding reordered_def using rng by (simp add: mset_splice flt s_def)
  then have m: "mset (reordered @ filter (\<lambda>t. \<not> P t) ts) = mset ts"
    by simp
  then have "set (reordered @ filter (\<lambda>t. \<not> P t) ts) = set ts"
    by (rule mset_eq_setD)
  with dord have "inj_on order (set (reordered @ filter (\<lambda>t. \<not> P t) ts))"
    by (simp add: distinct_map)
  with m srt have "sort_key order (reordered @ filter (\<lambda>t. \<not> P t) ts) = ts"
    by (intro sort_key_inj_key_eq)
  then show ?thesis
    using dst ne rng
    by (simp add: handleDragEnd_def Let_def flt nonFiltered_filter [OF dids]
        reordered_def s_def)
qed

subsection \<open>Progress chart\<close>









text \<open>
  Outside that condition the number of buckets can differ. In the zone that moves its
  clocks forward on 31 March 2024, at noon on 3 April, the starts of the local days
  31 March and 1 April fall on the same UTC date: the week has 6 buckets and the
  month 29.
\<close>

lemma clock_change_merges_buckets:
  "map_option (length \<circ> chartData)
     (progressEffect springZone plainLabel aprilNoon False [oldSession] week initialProgress)
     = Some 6
   \<and> map_option (length \<circ> chartData)
     (progressEffect springZone plainLabel aprilNoon False [oldSession] month initialProgress)
     = Some 29"
  by code_simp

end
